theory Spec2Isabelle
  imports Main
begin

section \<open>Errors, users, sessions and responses\<close>

text \<open>
  The controllers of the sign-in flow (\<^verbatim>\<open>controllers/user\<close>) are asynchronous
  request handlers: each one parses its payload with a zod schema, calls one function of
  \<^verbatim>\<open>managers/user\<close>, writes to \<^verbatim>\<open>req.session\<close> and answers with a
  redirect, a rendered view, \<^verbatim>\<open>next()\<close> or \<^verbatim>\<open>next(error)\<close>. An exception
  thrown inside the \<^verbatim>\<open>try\<close> block is a value of \<open>error\<close> here; the
  \<^verbatim>\<open>catch\<close> block of every controller is a function from that value to a response.

  Strings are lists of characters; the model covers code units below 256.
\<close>

text \<open>
  \<open>InvalidEmailError\<close> carries its \<^verbatim>\<open>didYouMean\<close> property, when present;
  \<open>ZodError\<close> carries the payload fields that have an issue; \<open>TypeError\<close> is thrown by
  reading a property of \<^verbatim>\<open>undefined\<close>; \<open>OtherError\<close> is any other exception.
\<close>

datatype error =
    InvalidEmailError "string option"
  | InvalidCredentialsError
  | EmailUnavailableError
  | EmailVerifiedAlreadyError
  | InvalidMagicLinkError
  | InvalidTokenError
  | WeakPasswordError
  | ZodError "string list"
  | TypeError
  | OtherError string

record User =
  user_id :: nat
  user_email :: string
  passwordHash :: string
  emailVerifiedAt :: "nat option"
  given_name :: "string option"
  family_name :: "string option"
  phone_number :: "string option"
  job :: "string option"

record Session =
  email :: "string option"
  user :: "User option"
  interactionId :: "string option"
  referer :: "string option"

datatype response =
    Redirect string
  | Render string "(string \<times> string) list"
  | Next
  | NextError error

text \<open>
  A function of \<^verbatim>\<open>managers/user\<close> works on the stores behind the session (users,
  tokens): it takes the state \<open>'w\<close> of those stores and returns the value it resolves to,
  or the error it throws, with the new state.
\<close>

type_synonym ('a, 'w) manager = "'w \<Rightarrow> (error + 'a) \<times> 'w"

subsection \<open>JavaScript values\<close>

text \<open>
  \<^verbatim>\<open>if (v)\<close> on a value that is a string or \<^verbatim>\<open>undefined\<close>: the empty string
  and \<^verbatim>\<open>undefined\<close> are falsy. \<open>truthy\<close> returns the string when it is truthy.
\<close>

definition truthy :: "string option \<Rightarrow> string option" where
  "truthy v = (case v of None \<Rightarrow> None | Some x \<Rightarrow> if x = [] then None else Some x)"

text \<open>lodash's \<^verbatim>\<open>isEmpty\<close> on a string or \<^verbatim>\<open>undefined\<close>.\<close>

definition isEmpty :: "string option \<Rightarrow> bool" where
  "isEmpty v = (case v of None \<Rightarrow> True | Some x \<Rightarrow> x = [])"

text \<open>A template literal \<^verbatim>\<open>${v}\<close>.\<close>

definition template :: "string option \<Rightarrow> string" where
  "template v = (case v of None \<Rightarrow> ''undefined'' | Some x \<Rightarrow> x)"

text \<open>
  The class \<^verbatim>\<open>\s\<close> of a regular expression, on code units below 256: tab, line feed,
  vertical tab, form feed, carriage return, space and the no-break space.
\<close>

definition isWhitespace :: "char \<Rightarrow> bool" where
  "isWhitespace c = ((of_char c :: nat) \<in> {9, 10, 11, 12, 13, 32, 160})"

text \<open>\<^verbatim>\<open>val.replace(/\s+/g, '')\<close>\<close>

definition stripWhitespace :: "string \<Rightarrow> string" where
  "stripWhitespace val = filter (\<lambda>c. \<not> isWhitespace c) val"

subsection \<open>Payload schemas\<close>

text \<open>
  \<^verbatim>\<open>z.string().min(1)\<close> on the field \<open>f\<close> of the payload: a value that is missing
  (or not a string) and the empty string are issues of that field.
\<close>

definition zodIssues :: "string \<Rightarrow> string option \<Rightarrow> string list" where
  "zodIssues f v = (case v of None \<Rightarrow> [f] | Some x \<Rightarrow> if length x < 1 then [f] else [])"

definition zString :: "string \<Rightarrow> string option \<Rightarrow> error + string" where
  "zString f v =
     (case v of
        Some x \<Rightarrow> if zodIssues f v = [] then Inr x else Inl (ZodError (zodIssues f v))
      | None \<Rightarrow> Inl (ZodError (zodIssues f v)))"

text \<open>
  \<^verbatim>\<open>emailSchema()\<close> of \<^verbatim>\<open>services/custom-zod-schemas\<close> is not among the
  source files: the controllers take it as a parameter \<open>emailSchema\<close>, a function that
  returns the parsed email, or \<open>None\<close> when the value has an issue.
\<close>

definition zEmail :: "(string \<Rightarrow> string option) \<Rightarrow> string \<Rightarrow> string option \<Rightarrow> error + string" where
  "zEmail emailSchema f v =
     (case v of
        None \<Rightarrow> Inl (ZodError [f])
      | Some x \<Rightarrow> (case emailSchema x of None \<Rightarrow> Inl (ZodError [f]) | Some e \<Rightarrow> Inr e))"

text \<open>
  \<^verbatim>\<open>hasErrorFromField\<close> of \<^verbatim>\<open>services/has-error-from-field\<close> is not among the
  source files either; it holds when the zod error has an issue on the field.
\<close>

fun hasErrorFromField :: "error \<Rightarrow> string \<Rightarrow> bool" where
  "hasErrorFromField (ZodError fs) f = (f \<in> set fs)"
| "hasErrorFromField _ f = False"

section \<open>The controllers\<close>

subsection \<open>issueSessionOrRedirectController\<close>

text \<open>\<^verbatim>\<open>isUrlTrusted\<close> of \<^verbatim>\<open>services/security\<close> is a parameter.\<close>

definition issueSessionOrRedirectController ::
  "(string \<Rightarrow> bool) \<Rightarrow> Session \<Rightarrow> response \<times> Session" where
  "issueSessionOrRedirectController isUrlTrusted s =
     (case truthy (interactionId s) of
        Some i \<Rightarrow> (Redirect (''/interaction/'' @ i @ ''/login''), s)
      | None \<Rightarrow>
          (case truthy (referer s) of
             Some r \<Rightarrow>
               if isUrlTrusted r then (Redirect r, s\<lparr>referer := None\<rparr>)
               else (Redirect ''/'', s)
           | None \<Rightarrow> (Redirect ''/'', s)))"

subsection \<open>postStartSignInController\<close>

fun postStartSignInCatch :: "string option \<Rightarrow> error \<Rightarrow> response" where
  "postStartSignInCatch login (InvalidEmailError didYouMean) =
     Redirect (''/users/start-sign-in?notification=invalid_email&login_hint='' @ template login @
       (case truthy didYouMean of Some d \<Rightarrow> ''&did_you_mean='' @ d | None \<Rightarrow> ''''))"
| "postStartSignInCatch login (ZodError fs) =
     Redirect (''/users/start-sign-in?notification=invalid_email&login_hint='' @ template login)"
| "postStartSignInCatch login e = NextError e"

definition postStartSignInController ::
  "(string \<Rightarrow> string option) \<Rightarrow> (string \<Rightarrow> (string \<times> bool, 'w) manager) \<Rightarrow>
   string option \<Rightarrow> Session \<times> 'w \<Rightarrow> response \<times> Session \<times> 'w" where
  "postStartSignInController emailSchema startLogin login sw =
     (case sw of (s, w) \<Rightarrow>
        (case zEmail emailSchema ''login'' login of
           Inl e \<Rightarrow> (postStartSignInCatch login e, s, w)
         | Inr l \<Rightarrow>
             (case startLogin l w of
                (Inr (email', userExists), w') \<Rightarrow>
                  (Redirect (''/users/'' @ (if userExists then ''sign-in'' else ''sign-up'')),
                   s\<lparr>email := Some email'\<rparr>, w')
              | (Inl e, w') \<Rightarrow> (postStartSignInCatch login e, s, w'))))"

subsection \<open>postSignInMiddleware\<close>

fun postSignInCatch :: "error \<Rightarrow> response" where
  "postSignInCatch InvalidCredentialsError = Redirect ''/users/sign-in?notification=invalid_credentials''"
| "postSignInCatch (ZodError fs) = Redirect ''/users/sign-in?notification=invalid_credentials''"
| "postSignInCatch e = NextError e"

definition postSignInMiddleware ::
  "(string option \<Rightarrow> string \<Rightarrow> (User, 'w) manager) \<Rightarrow>
   string option \<Rightarrow> Session \<times> 'w \<Rightarrow> response \<times> Session \<times> 'w" where
  "postSignInMiddleware login password sw =
     (case sw of (s, w) \<Rightarrow>
        (case zString ''password'' password of
           Inl e \<Rightarrow> (postSignInCatch e, s, w)
         | Inr p \<Rightarrow>
             (case login (email s) p w of
                (Inr u, w') \<Rightarrow> (Next, s\<lparr>user := Some u, email := None\<rparr>, w')
              | (Inl e, w') \<Rightarrow> (postSignInCatch e, s, w'))))"

subsection \<open>postSignUpController\<close>

fun postSignUpCatch :: "error \<Rightarrow> response" where
  "postSignUpCatch EmailUnavailableError = Redirect ''/users/start-sign-in?notification=email_unavailable''"
| "postSignUpCatch WeakPasswordError = Redirect ''/users/sign-up?notification=weak_password''"
| "postSignUpCatch (ZodError fs) = Redirect ''/users/sign-up?notification=invalid_credentials''"
| "postSignUpCatch e = NextError e"

definition postSignUpController ::
  "(string option \<Rightarrow> string \<Rightarrow> (User, 'w) manager) \<Rightarrow>
   string option \<Rightarrow> Session \<times> 'w \<Rightarrow> response \<times> Session \<times> 'w" where
  "postSignUpController signup password sw =
     (case sw of (s, w) \<Rightarrow>
        (case zString ''password'' password of
           Inl e \<Rightarrow> (postSignUpCatch e, s, w)
         | Inr p \<Rightarrow>
             (case signup (email s) p w of
                (Inr u, w') \<Rightarrow> (Next, s\<lparr>user := Some u, email := None\<rparr>, w')
              | (Inl e, w') \<Rightarrow> (postSignUpCatch e, s, w'))))"

subsection \<open>postVerifyEmailController\<close>

fun postVerifyEmailCatch :: "error \<Rightarrow> response" where
  "postVerifyEmailCatch InvalidTokenError = Redirect ''/users/verify-email?notification=invalid_verify_email_code''"
| "postVerifyEmailCatch (ZodError fs) = Redirect ''/users/verify-email?notification=invalid_verify_email_code''"
| "postVerifyEmailCatch e = NextError e"

text \<open>
  The schema checks \<^verbatim>\<open>min(1)\<close> on the value as received and then removes the
  whitespace. \<^verbatim>\<open>req.session.user!.email\<close> throws when the session has no user.
\<close>

definition postVerifyEmailController ::
  "(string \<Rightarrow> string \<Rightarrow> (User, 'w) manager) \<Rightarrow>
   string option \<Rightarrow> Session \<times> 'w \<Rightarrow> response \<times> Session \<times> 'w" where
  "postVerifyEmailController verifyEmail verify_email_token sw =
     (case sw of (s, w) \<Rightarrow>
        (case zString ''verify_email_token'' verify_email_token of
           Inl e \<Rightarrow> (postVerifyEmailCatch e, s, w)
         | Inr t \<Rightarrow>
             (case user s of
                None \<Rightarrow> (postVerifyEmailCatch TypeError, s, w)
              | Some u \<Rightarrow>
                  (case verifyEmail (user_email u) (stripWhitespace t) w of
                     (Inr u', w') \<Rightarrow> (Next, s\<lparr>user := Some u'\<rparr>, w')
                   | (Inl e, w') \<Rightarrow> (postVerifyEmailCatch e, s, w')))))"

subsection \<open>postSendEmailVerificationController\<close>

fun postSendEmailVerificationCatch :: "error \<Rightarrow> response" where
  "postSendEmailVerificationCatch EmailVerifiedAlreadyError =
     Redirect ''/users/personal-information?notification=email_verified_already''"
| "postSendEmailVerificationCatch e = NextError e"

definition postSendEmailVerificationController ::
  "(string \<Rightarrow> bool \<Rightarrow> (bool, 'w) manager) \<Rightarrow> Session \<times> 'w \<Rightarrow> response \<times> Session \<times> 'w" where
  "postSendEmailVerificationController sendEmailAddressVerificationEmail sw =
     (case sw of (s, w) \<Rightarrow>
        (case user s of
           None \<Rightarrow> (postSendEmailVerificationCatch TypeError, s, w)
         | Some u \<Rightarrow>
             (case sendEmailAddressVerificationEmail (user_email u) False w of
                (Inr sent, w') \<Rightarrow> (Redirect ''/users/verify-email?new_code_sent=true'', s, w')
              | (Inl e, w') \<Rightarrow> (postSendEmailVerificationCatch e, s, w'))))"

subsection \<open>postSendMagicLinkController\<close>

fun postSendMagicLinkCatch :: "error \<Rightarrow> response" where
  "postSendMagicLinkCatch (InvalidEmailError d) = Redirect ''/users/start-sign-in?notification=invalid_email''"
| "postSendMagicLinkCatch e = NextError e"

definition postSendMagicLinkController ::
  "(string option \<Rightarrow> string option \<Rightarrow> (unit, 'w) manager) \<Rightarrow>
   string option \<Rightarrow> Session \<times> 'w \<Rightarrow> response \<times> Session \<times> 'w" where
  "postSendMagicLinkController sendSendMagicLinkEmail origin sw =
     (case sw of (s, w) \<Rightarrow>
        (case sendSendMagicLinkEmail (email s) origin w of
           (Inr done, w') \<Rightarrow> (Redirect ''/users/magic-link-sent'', s, w')
         | (Inl e, w') \<Rightarrow> (postSendMagicLinkCatch e, s, w')))"

subsection \<open>getSignInWithMagicLinkController\<close>

fun getSignInWithMagicLinkCatch :: "error \<Rightarrow> response" where
  "getSignInWithMagicLinkCatch (ZodError fs) = Redirect ''/users/start-sign-in?notification=invalid_magic_link''"
| "getSignInWithMagicLinkCatch e = NextError e"

text \<open>
  The controller reads the session and writes nothing; \<open>csrfToken\<close> is the value of
  \<^verbatim>\<open>req.csrfToken()\<close>.
\<close>

definition getSignInWithMagicLinkController ::
  "string \<Rightarrow> string option \<Rightarrow> Session \<Rightarrow> response" where
  "getSignInWithMagicLinkController csrfToken magic_link_token s =
     (case zString ''magic_link_token'' magic_link_token of
        Inl e \<Rightarrow> getSignInWithMagicLinkCatch e
      | Inr t \<Rightarrow>
          (case truthy (email s) of
             None \<Rightarrow>
               Render ''user/sign-in-with-magic-link''
                 [(''csrfToken'', csrfToken), (''magicLinkToken'', t)]
           | Some e \<Rightarrow>
               Render ''autosubmit-form''
                 [(''csrfToken'', csrfToken), (''actionLabel'', ''Connexion...''),
                  (''actionPath'', ''/users/sign-in-with-magic-link''),
                  (''inputName'', ''magic_link_token''), (''inputValue'', t)]))"

subsection \<open>postSignInWithMagicLinkController\<close>

fun postSignInWithMagicLinkCatch :: "Session \<Rightarrow> error \<Rightarrow> response" where
  "postSignInWithMagicLinkCatch s InvalidMagicLinkError =
     (if isEmpty (email s) then Redirect ''/users/start-sign-in?notification=invalid_magic_link''
      else Redirect ''/users/sign-in?notification=invalid_magic_link_with_reinit'')"
| "postSignInWithMagicLinkCatch s (ZodError fs) =
     (if isEmpty (email s) then Redirect ''/users/start-sign-in?notification=invalid_magic_link''
      else Redirect ''/users/sign-in?notification=invalid_magic_link_with_reinit'')"
| "postSignInWithMagicLinkCatch s e = NextError e"

definition postSignInWithMagicLinkController ::
  "(string \<Rightarrow> (User, 'w) manager) \<Rightarrow>
   string option \<Rightarrow> Session \<times> 'w \<Rightarrow> response \<times> Session \<times> 'w" where
  "postSignInWithMagicLinkController loginWithMagicLink magic_link_token sw =
     (case sw of (s, w) \<Rightarrow>
        (case zString ''magic_link_token'' magic_link_token of
           Inl e \<Rightarrow> (postSignInWithMagicLinkCatch s e, s, w)
         | Inr t \<Rightarrow>
             (case loginWithMagicLink t w of
                (Inr u, w') \<Rightarrow> (Next, s\<lparr>user := Some u, email := None\<rparr>, w')
              | (Inl e, w') \<Rightarrow> (postSignInWithMagicLinkCatch s e, s, w'))))"

subsection \<open>postResetPasswordController\<close>

fun postResetPasswordCatch :: "error \<Rightarrow> response" where
  "postResetPasswordCatch (ZodError fs) = Redirect ''/users/reset-password?notification=invalid_email''"
| "postResetPasswordCatch e = NextError e"

definition postResetPasswordController ::
  "(string \<Rightarrow> string option) \<Rightarrow> (string \<Rightarrow> string option \<Rightarrow> (unit, 'w) manager) \<Rightarrow>
   string option \<Rightarrow> string option \<Rightarrow> Session \<times> 'w \<Rightarrow> response \<times> Session \<times> 'w" where
  "postResetPasswordController emailSchema sendResetPasswordEmail login origin sw =
     (case sw of (s, w) \<Rightarrow>
        (case zEmail emailSchema ''login'' login of
           Inl e \<Rightarrow> (postResetPasswordCatch e, s, w)
         | Inr l \<Rightarrow>
             (case sendResetPasswordEmail l origin w of
                (Inr done, w') \<Rightarrow>
                  (Redirect ''/users/start-sign-in?notification=reset_password_email_sent'', s, w')
              | (Inl e, w') \<Rightarrow> (postResetPasswordCatch e, s, w'))))"

subsection \<open>postChangePasswordController\<close>

fun isZodError :: "error \<Rightarrow> bool" where
  "isZodError (ZodError fs) = True"
| "isZodError _ = False"

definition postChangePasswordCatch :: "string option \<Rightarrow> error \<Rightarrow> response" where
  "postChangePasswordCatch reset_password_token e =
     (if e = InvalidTokenError \<or> (isZodError e \<and> hasErrorFromField e ''reset_password_token'')
      then Redirect ''/users/reset-password?notification=invalid_token''
      else if e = WeakPasswordError \<or> (isZodError e \<and> hasErrorFromField e ''password'')
      then Redirect (''/users/change-password?reset_password_token='' @
             template reset_password_token @ ''&notification=weak_password'')
      else NextError e)"

text \<open>The object schema reports the issues of both fields in one error.\<close>

definition changePasswordSchema :: "string option \<Rightarrow> string option \<Rightarrow> error + string \<times> string" where
  "changePasswordSchema reset_password_token password =
     (case (zString ''reset_password_token'' reset_password_token, zString ''password'' password) of
        (Inr t, Inr p) \<Rightarrow> Inr (t, p)
      | _ \<Rightarrow> Inl (ZodError (zodIssues ''reset_password_token'' reset_password_token @
                           zodIssues ''password'' password)))"

definition postChangePasswordController ::
  "(string \<Rightarrow> string \<Rightarrow> (unit, 'w) manager) \<Rightarrow>
   string option \<Rightarrow> string option \<Rightarrow> Session \<times> 'w \<Rightarrow> response \<times> Session \<times> 'w" where
  "postChangePasswordController changePassword reset_password_token password sw =
     (case sw of (s, w) \<Rightarrow>
        (case changePasswordSchema reset_password_token password of
           Inl e \<Rightarrow> (postChangePasswordCatch reset_password_token e, s, w)
         | Inr (t, p) \<Rightarrow>
             (case changePassword t p w of
                (Inr done, w') \<Rightarrow>
                  (Redirect ''/users/start-sign-in?notification=password_change_success'', s, w')
              | (Inl e, w') \<Rightarrow> (postChangePasswordCatch reset_password_token e, s, w'))))"

subsection \<open>postPersonalInformationsController\<close>

fun postPersonalInformationsCatch :: "error \<Rightarrow> response" where
  "postPersonalInformationsCatch (ZodError fs) =
     Redirect ''/users/personal-information?notification=invalid_personal_informations''"
| "postPersonalInformationsCatch e = NextError e"

definition personalInformationsSchema ::
  "string option \<times> string option \<times> string option \<times> string option \<Rightarrow>
   error + string \<times> string \<times> string \<times> string" where
  "personalInformationsSchema body =
     (case body of (given, family, phone, j) \<Rightarrow>
        (case (zString ''given_name'' given, zString ''family_name'' family,
               zString ''phone_number'' phone, zString ''job'' j) of
           (Inr g, Inr f, Inr ph, Inr jb) \<Rightarrow> Inr (g, f, ph, jb)
         | _ \<Rightarrow> Inl (ZodError (zodIssues ''given_name'' given @ zodIssues ''family_name'' family @
                              zodIssues ''phone_number'' phone @ zodIssues ''job'' j))))"

definition postPersonalInformationsController ::
  "(nat \<Rightarrow> string \<times> string \<times> string \<times> string \<Rightarrow> (User, 'w) manager) \<Rightarrow>
   string option \<times> string option \<times> string option \<times> string option \<Rightarrow>
   Session \<times> 'w \<Rightarrow> response \<times> Session \<times> 'w" where
  "postPersonalInformationsController updatePersonalInformations body sw =
     (case sw of (s, w) \<Rightarrow>
        (case personalInformationsSchema body of
           Inl e \<Rightarrow> (postPersonalInformationsCatch e, s, w)
         | Inr info \<Rightarrow>
             (case user s of
                None \<Rightarrow> (postPersonalInformationsCatch TypeError, s, w)
              | Some u \<Rightarrow>
                  (case updatePersonalInformations (user_id u) info w of
                     (Inr u', w') \<Rightarrow> (Next, s\<lparr>user := Some u'\<rparr>, w')
                   | (Inl e, w') \<Rightarrow> (postPersonalInformationsCatch e, s, w')))))"

section \<open>The stores behind the session\<close>

text \<open>
  \<^verbatim>\<open>managers/user\<close> and the stores it works on are not among the source files.
  This section gives the functions of it that the properties below need, from the
  specification of the flow.
\<close>

text \<open>
  Modelled from the spec: the kind of a \<^verbatim>\<open>SecurityToken\<close>, which is missing from
  the sources.
\<close>

datatype TokenKind = EmailVerification | MagicLink | PasswordReset

text \<open>
  Modelled from the spec: the subject of a \<^verbatim>\<open>SecurityToken\<close>
  (\<^verbatim>\<open>subjectUserId\<close> or \<^verbatim>\<open>subjectEmail\<close>), which is missing from the sources.
\<close>

datatype Subject = SubjectUserId nat | SubjectEmail string

text \<open>
  Modelled from the spec: the record \<^verbatim>\<open>SecurityToken\<close> of the token issuer, which
  is missing from the sources. Timestamps are natural numbers.
\<close>

record SecurityToken =
  kind :: TokenKind
  subject :: Subject
  issuedAt :: nat
  expiresAt :: nat
  consumedAt :: "nat option"

text \<open>
  Modelled from the spec: the failures of \<^verbatim>\<open>TokenIssuer.validate\<close>, which is
  missing from the sources.
\<close>

datatype TokenFailure = TokenNotFound | TokenExpired | TokenAlreadyUsed

text \<open>
  Modelled from the spec: the state the managers work on, which is missing from the
  sources: the user records, the token records keyed by their opaque string, the
  current time, and the number of tokens minted so far.
\<close>

record World =
  users :: "User list"
  tokens :: "string \<rightharpoonup> SecurityToken"
  now :: nat
  minted :: nat

text \<open>
  Modelled from the spec: the collaborators the specification leaves open, which are
  missing from the sources: the random source of the token issuer, the duration of each
  kind of token, the password hash, the email validator and its suggestion.
\<close>

record Collaborators =
  randomToken :: "nat \<Rightarrow> string"
  ttl :: "TokenKind \<Rightarrow> nat"
  hash :: "string \<Rightarrow> string"
  isValid :: "string \<Rightarrow> bool"
  didYouMean :: "string \<Rightarrow> string option"

text \<open>
  Modelled from the spec: \<^verbatim>\<open>TokenIssuer.issue(kind, subject, ttl)\<close>, which is missing
  from the sources. It generates an opaque identifier (the next value of the random
  source), records \<open>issuedAt = now\<close> and \<open>expiresAt = now + ttl\<close>, and persists the record.
\<close>

definition issue :: "Collaborators \<Rightarrow> TokenKind \<Rightarrow> Subject \<Rightarrow> nat \<Rightarrow> World \<Rightarrow> string \<times> World" where
  "issue c k subj duration w =
     (let t = randomToken c (minted w) in
      (t, w\<lparr>tokens := (tokens w)(t \<mapsto>
               \<lparr>kind = k, subject = subj, issuedAt = now w, expiresAt = now w + duration,
                consumedAt = None\<rparr>),
             minted := Suc (minted w)\<rparr>))"

text \<open>
  Modelled from the spec: \<^verbatim>\<open>TokenIssuer.validate(kind, token)\<close>, which is missing from
  the sources. A pure lookup and state check: the store is keyed by the opaque string, and
  a token received from user input is compared after stripping all whitespace. A token
  is valid iff \<open>consumedAt\<close> is unset and the current time is before \<open>expiresAt\<close>, and
  an expired token is invalid whatever its consumption state.
\<close>

definition validate :: "TokenKind \<Rightarrow> string \<Rightarrow> World \<Rightarrow> TokenFailure + SecurityToken" where
  "validate k t w =
     (case tokens w (stripWhitespace t) of
        None \<Rightarrow> Inl TokenNotFound
      | Some tok \<Rightarrow>
          if kind tok \<noteq> k then Inl TokenNotFound
          else if expiresAt tok \<le> now w then Inl TokenExpired
          else if consumedAt tok \<noteq> None then Inl TokenAlreadyUsed
          else Inr tok)"

text \<open>
  Modelled from the spec: \<^verbatim>\<open>TokenIssuer.consume(kind, token)\<close>, which is missing from
  the sources. It calls \<open>validate\<close>, then marks \<open>consumedAt = now\<close> on the record
  that \<open>validate\<close> found.
\<close>

definition consume :: "TokenKind \<Rightarrow> string \<Rightarrow> World \<Rightarrow> (TokenFailure + SecurityToken) \<times> World" where
  "consume k t w =
     (case validate k t w of
        Inl f \<Rightarrow> (Inl f, w)
      | Inr tok \<Rightarrow>
          (Inr tok,
           w\<lparr>tokens := (tokens w)(stripWhitespace t \<mapsto> tok\<lparr>consumedAt := Some (now w)\<rparr>)\<rparr>))"

text \<open>
  Modelled from the spec: the minimum length of \<^verbatim>\<open>CredentialGuard.checkStrength\<close>,
  which is missing from the sources: 10 characters in the reference policy (the
  \<^verbatim>\<open>weak_password\<close> notification names the same length).
\<close>

definition MIN_PASSWORD_LENGTH :: nat where
  "MIN_PASSWORD_LENGTH = 10"

text \<open>
  Modelled from the spec: \<^verbatim>\<open>CredentialGuard.checkStrength(password)\<close>, which is missing
  from the sources. It rejects a password shorter than the minimum length.
\<close>

definition checkStrength :: "string \<Rightarrow> error + unit" where
  "checkStrength password =
     (if length password < MIN_PASSWORD_LENGTH then Inl WeakPasswordError else Inr ())"

text \<open>
  Modelled from the spec: \<^verbatim>\<open>UserStore.findByEmail(email)\<close>, which is missing from the
  sources: the first record with that email, if any.
\<close>

definition findByEmail :: "User list \<Rightarrow> string \<Rightarrow> User option" where
  "findByEmail us mail = find (\<lambda>u. user_email u = mail) us"

text \<open>
  Modelled from the spec: the resolution of the subject of a token to a user record,
  which is missing from the sources.
\<close>

fun isSubject :: "Subject \<Rightarrow> User \<Rightarrow> bool" where
  "isSubject (SubjectUserId i) u = (user_id u = i)"
| "isSubject (SubjectEmail mail) u = (user_email u = mail)"

text \<open>
  Modelled from the spec: \<^verbatim>\<open>UserStore.updatePasswordHash\<close>, which is missing from the
  sources; the record is the one the subject of the token resolves to.
\<close>

definition updatePasswordHash :: "Subject \<Rightarrow> string \<Rightarrow> User list \<Rightarrow> User list" where
  "updatePasswordHash subj h us = map (\<lambda>u. if isSubject subj u then u\<lparr>passwordHash := h\<rparr> else u) us"

text \<open>
  Modelled from the spec: \<^verbatim>\<open>startLogin\<close> of \<^verbatim>\<open>managers/user\<close>, which is missing
  from the sources (action StartLogin). When the email passes format validation it
  returns the email and whether a user record with it exists; on a format failure it
  throws \<open>InvalidEmailError\<close>, which carries the suggestion when there is one.
\<close>

definition startLogin :: "Collaborators \<Rightarrow> string \<Rightarrow> (string \<times> bool, World) manager" where
  "startLogin c login w =
     (if isValid c login then (Inr (login, findByEmail (users w) login \<noteq> None), w)
      else (Inl (InvalidEmailError (didYouMean c login)), w))"

text \<open>
  Modelled from the spec: \<^verbatim>\<open>sendSendMagicLinkEmail\<close> of \<^verbatim>\<open>managers/user\<close>, which
  is missing from the sources (action RequestMagicLink). Without a pending email it throws
  \<open>InvalidEmailError\<close>; otherwise it issues a magic-link token for the email, whether or
  not a user record has it. The dispatch of the mail is a collaborator's.
\<close>

definition sendSendMagicLinkEmail ::
  "Collaborators \<Rightarrow> string option \<Rightarrow> string option \<Rightarrow> (unit, World) manager" where
  "sendSendMagicLinkEmail c pendingEmail origin w =
     (case truthy pendingEmail of
        None \<Rightarrow> (Inl (InvalidEmailError None), w)
      | Some mail \<Rightarrow> (Inr (), snd (issue c MagicLink (SubjectEmail mail) (ttl c MagicLink) w)))"

text \<open>
  Modelled from the spec: \<^verbatim>\<open>sendResetPasswordEmail\<close> of \<^verbatim>\<open>managers/user\<close>, which
  is missing from the sources (action RequestPasswordReset). It issues a reset token for
  the email, whether or not a user record has it.
\<close>

definition sendResetPasswordEmail ::
  "Collaborators \<Rightarrow> string \<Rightarrow> string option \<Rightarrow> (unit, World) manager" where
  "sendResetPasswordEmail c login origin w =
     (Inr (), snd (issue c PasswordReset (SubjectEmail login) (ttl c PasswordReset) w))"

text \<open>
  Modelled from the spec: \<^verbatim>\<open>changePassword\<close> of \<^verbatim>\<open>managers/user\<close>, which is
  missing from the sources (action ConsumePasswordReset). The strength of the new
  password is checked first; only then is the token consumed and the stored hash of its
  subject updated. An invalid token is \<open>InvalidTokenError\<close>.
\<close>

definition changePassword :: "Collaborators \<Rightarrow> string \<Rightarrow> string \<Rightarrow> (unit, World) manager" where
  "changePassword c token newPassword w =
     (case checkStrength newPassword of
        Inl e \<Rightarrow> (Inl e, w)
      | Inr ok \<Rightarrow>
          (case consume PasswordReset token w of
             (Inl f, w') \<Rightarrow> (Inl InvalidTokenError, w')
           | (Inr tok, w') \<Rightarrow>
               (Inr (), w'\<lparr>users := updatePasswordHash (subject tok) (hash c newPassword) (users w')\<rparr>)))"


section \<open>Sample values\<close>

text \<open>Concrete sessions, records, stores and collaborators, on which the properties are run.\<close>

definition user0 :: User where
  "user0 = \<lparr>user_id = 1, user_email = ''user@example.com'', passwordHash = ''old-hash'',
     emailVerifiedAt = None, given_name = None, family_name = None, phone_number = None,
     job = None\<rparr>"

definition session0 :: Session where
  "session0 = \<lparr>email = Some ''user@example.com'', user = None, interactionId = None,
     referer = None\<rparr>"

definition sessionAnonymous :: Session where
  "sessionAnonymous = \<lparr>email = None, user = None, interactionId = None, referer = None\<rparr>"

definition token0 :: SecurityToken where
  "token0 = \<lparr>kind = PasswordReset, subject = SubjectEmail ''user@example.com'', issuedAt = 5,
     expiresAt = 100, consumedAt = None\<rparr>"

definition world0 :: World where
  "world0 = \<lparr>users = [user0], tokens = [''r3s3t'' \<mapsto> token0], now = 10, minted = 1\<rparr>"

definition collaborators0 :: Collaborators where
  "collaborators0 = \<lparr>randomToken = (\<lambda>n. ''t'' @ replicate n CHR ''x''), ttl = (\<lambda>k. 60),
     hash = (\<lambda>p. ''hash:'' @ p), isValid = (\<lambda>mail. CHR ''@'' \<in> set mail),
     didYouMean = (\<lambda>mail. if mail = ''user.example.com'' then Some ''user@example.com'' else None)\<rparr>"

definition emailSchema0 :: "string \<Rightarrow> string option" where
  "emailSchema0 x = (if x = [] then None else Some x)"

text \<open>
  A manager that knows one token and compares the token it is given with it, as it is
  given: it resolves to \<open>ok\<close> on that token and throws \<open>err\<close> on any other.
\<close>

definition exactToken :: "string \<Rightarrow> 'a \<Rightarrow> error \<Rightarrow> string \<Rightarrow> ('a, unit) manager" where
  "exactToken stored ok err t w = (if t = stored then (Inr ok, w) else (Inl err, w))"

text \<open>A manager that knows one password for the pending email.\<close>

definition exactPassword :: "string \<Rightarrow> User \<Rightarrow> string option \<Rightarrow> string \<Rightarrow> (User, unit) manager" where
  "exactPassword stored u pendingEmail p w =
     (if pendingEmail = Some (user_email u) \<and> p = stored then (Inr u, w)
      else (Inl InvalidCredentialsError, w))"






section \<open>Properties of the payload schemas\<close>

lemma zString_empty: "zString f (Some []) = Inl (ZodError [f])"
  by (simp add: zString_def zodIssues_def)

lemma zString_None: "zString f None = Inl (ZodError [f])"
  by (simp add: zString_def zodIssues_def)

lemma zString_Some: "t \<noteq> [] \<Longrightarrow> zString f (Some t) = Inr t"
  by (simp add: zString_def zodIssues_def)



section \<open>What a controller does to the session\<close>

lemma postSignInCatch_not_Next: "postSignInCatch e \<noteq> Next"
  by (cases e) simp_all

lemma postSignUpCatch_not_Next: "postSignUpCatch e \<noteq> Next"
  by (cases e) simp_all

lemma postSignInWithMagicLinkCatch_not_Next: "postSignInWithMagicLinkCatch s e \<noteq> Next"
  by (cases e) simp_all

lemma postSignInMiddleware_session:
  assumes "postSignInMiddleware login password (s, w) = (r, s', w')"
  shows "(r = Next \<and> email s' = None \<and> user s' \<noteq> None) \<or> (r \<noteq> Next \<and> s' = s)"
  using assms
  by (auto simp add: postSignInMiddleware_def postSignInCatch_not_Next
      split: sum.splits prod.splits)

lemma postSignUpController_session:
  assumes "postSignUpController signup password (s, w) = (r, s', w')"
  shows "(r = Next \<and> email s' = None \<and> user s' \<noteq> None) \<or> (r \<noteq> Next \<and> s' = s)"
  using assms
  by (auto simp add: postSignUpController_def postSignUpCatch_not_Next
      split: sum.splits prod.splits)

lemma postSignInWithMagicLinkController_session:
  assumes "postSignInWithMagicLinkController loginWithMagicLink token (s, w) = (r, s', w')"
  shows "(r = Next \<and> email s' = None \<and> user s' \<noteq> None) \<or> (r \<noteq> Next \<and> s' = s)"
  using assms
  by (auto simp add: postSignInWithMagicLinkController_def postSignInWithMagicLinkCatch_not_Next
      split: sum.splits prod.splits)

lemma postVerifyEmailController_session:
  assumes "postVerifyEmailController verifyEmail token (s, w) = (r, s', w')"
  shows "r = Next \<or> s' = s"
  using assms
  by (auto simp add: postVerifyEmailController_def
      split: sum.splits prod.splits option.splits)

lemma postPersonalInformationsController_session:
  assumes "postPersonalInformationsController updatePersonalInformations body (s, w) = (r, s', w')"
  shows "r = Next \<or> s' = s"
  using assms
  by (auto simp add: postPersonalInformationsController_def
      split: sum.splits prod.splits option.splits)

lemma postStartSignInController_session:
  assumes "postStartSignInController emailSchema startLogin' login (s, w) = (r, s', w')"
  shows "r = Redirect ''/users/sign-in'' \<or> r = Redirect ''/users/sign-up'' \<or> s' = s"
  using assms
  by (auto simp add: postStartSignInController_def
      split: sum.splits prod.splits option.splits if_splits)

lemma postStartSignInController_resolved:
  assumes "emailSchema login = Some l" and "startLogin' l w = (Inr (mail, userExists), w')"
  shows "postStartSignInController emailSchema startLogin' (Some login) (s, w) =
           (Redirect (if userExists then ''/users/sign-in'' else ''/users/sign-up''),
            s\<lparr>email := Some mail\<rparr>, w')"
  using assms by (simp add: postStartSignInController_def zEmail_def)

lemma postStartSignInController_invalid:
  assumes "emailSchema login = Some l" and "startLogin' l w = (Inl (InvalidEmailError d), w')"
  shows "postStartSignInController emailSchema startLogin' (Some login) (s, w) =
           (Redirect (''/users/start-sign-in?notification=invalid_email&login_hint='' @ login @
              (case truthy d of Some x \<Rightarrow> ''&did_you_mean='' @ x | None \<Rightarrow> '''')),
            s, w')"
  using assms by (simp add: postStartSignInController_def zEmail_def template_def)

lemma postSendMagicLinkController_session:
  "fst (snd (postSendMagicLinkController send origin (s, w))) = s"
  by (auto simp add: postSendMagicLinkController_def split: sum.splits prod.splits)

lemma postSendEmailVerificationController_session:
  "fst (snd (postSendEmailVerificationController send (s, w))) = s"
  by (auto simp add: postSendEmailVerificationController_def
      split: sum.splits prod.splits option.splits)

lemma postResetPasswordController_session:
  "fst (snd (postResetPasswordController emailSchema send login origin (s, w))) = s"
  by (auto simp add: postResetPasswordController_def split: sum.splits prod.splits)

lemma postChangePasswordController_session:
  "fst (snd (postChangePasswordController change token password (s, w))) = s"
  by (auto simp add: postChangePasswordController_def split: sum.splits prod.splits)

lemma postSignInMiddleware_invalid_credentials:
  assumes "p \<noteq> []" and "fst (login (email s) p w) = Inl InvalidCredentialsError"
  shows "postSignInMiddleware login (Some p) (s, w) =
           (Redirect ''/users/sign-in?notification=invalid_credentials'', s,
            snd (login (email s) p w))"
  using assms
  by (cases "login (email s) p w") (simp add: postSignInMiddleware_def zString_Some)

lemma postVerifyEmailController_invalid_code:
  assumes "t \<noteq> []" and "user s = Some u"
    and "fst (verifyEmail (user_email u) (stripWhitespace t) w) = Inl InvalidTokenError"
  shows "postVerifyEmailController verifyEmail (Some t) (s, w) =
           (Redirect ''/users/verify-email?notification=invalid_verify_email_code'', s,
            snd (verifyEmail (user_email u) (stripWhitespace t) w))"
  using assms
  by (cases "verifyEmail (user_email u) (stripWhitespace t) w")
    (simp add: postVerifyEmailController_def zString_Some)

section \<open>The claims\<close>

subsection \<open>Empty passwords\<close>

text \<open>
  C9: an empty password submitted to the password login or to the signup fails the
  payload-shape check (\<^verbatim>\<open>min(1)\<close>) before the manager runs: whatever the manager
  is, the stores and the session are as before and the outcome is
  \<^verbatim>\<open>invalid_credentials\<close> in both cases, not \<^verbatim>\<open>weak_password\<close>. A missing
  password has the same outcome.
\<close>

theorem empty_password_is_invalid_credentials:
  "postSignInMiddleware login (Some []) (s, w) =
     (Redirect ''/users/sign-in?notification=invalid_credentials'', s, w) \<and>
   postSignUpController signup (Some []) (s, w) =
     (Redirect ''/users/sign-up?notification=invalid_credentials'', s, w) \<and>
   postSignInMiddleware login None (s, w) =
     (Redirect ''/users/sign-in?notification=invalid_credentials'', s, w) \<and>
   postSignUpController signup None (s, w) =
     (Redirect ''/users/sign-up?notification=invalid_credentials'', s, w)"
  by (simp add: postSignInMiddleware_def postSignUpController_def zString_empty zString_None)

theorem empty_password_is_invalid_credentials_witness:
  "postSignInMiddleware (exactPassword [] user0) (Some []) (session0, ()) =
     (Redirect ''/users/sign-in?notification=invalid_credentials'', session0, ()) \<and>
   postSignUpController (exactPassword [] user0) (Some []) (session0, ()) =
     (Redirect ''/users/sign-up?notification=invalid_credentials'', session0, ())"
  using empty_password_is_invalid_credentials
    [of "exactPassword [] user0" session0 "()" "exactPassword [] user0"]
  by simp

subsection \<open>The redirect after authentication\<close>

text \<open>
  C10: after authentication the redirect target is chosen in a fixed order. A pending
  \<^verbatim>\<open>interactionId\<close> wins. Otherwise a referer stored in the session is used only if
  \<^verbatim>\<open>isUrlTrusted\<close> accepts it, and it is removed from the session with the
  redirect. Otherwise the redirect goes to \<^verbatim>\<open>/\<close>; a referer that is not trusted is
  not the target and stays in the session.
\<close>

theorem redirect_target_order:
  "(truthy (interactionId s) = Some i \<longrightarrow>
      issueSessionOrRedirectController isUrlTrusted s =
        (Redirect (''/interaction/'' @ i @ ''/login''), s)) \<and>
   (truthy (interactionId s) = None \<and> truthy (referer s) = Some r \<and> isUrlTrusted r \<longrightarrow>
      issueSessionOrRedirectController isUrlTrusted s = (Redirect r, s\<lparr>referer := None\<rparr>)) \<and>
   (truthy (interactionId s) = None \<and> truthy (referer s) = Some r \<and> \<not> isUrlTrusted r \<longrightarrow>
      issueSessionOrRedirectController isUrlTrusted s = (Redirect ''/'', s)) \<and>
   (truthy (interactionId s) = None \<and> truthy (referer s) = None \<longrightarrow>
      issueSessionOrRedirectController isUrlTrusted s = (Redirect ''/'', s))"
  by (simp add: issueSessionOrRedirectController_def)

theorem redirect_target_order_witness:
  "issueSessionOrRedirectController (\<lambda>url. url = ''https://trusted.example/app'')
     (session0\<lparr>interactionId := Some ''abc'', referer := Some ''https://trusted.example/app''\<rparr>) =
     (Redirect ''/interaction/abc/login'',
      session0\<lparr>interactionId := Some ''abc'', referer := Some ''https://trusted.example/app''\<rparr>) \<and>
   issueSessionOrRedirectController (\<lambda>url. url = ''https://trusted.example/app'')
     (session0\<lparr>referer := Some ''https://trusted.example/app''\<rparr>) =
     (Redirect ''https://trusted.example/app'', session0\<lparr>referer := None\<rparr>) \<and>
   issueSessionOrRedirectController (\<lambda>url. url = ''https://trusted.example/app'')
     (session0\<lparr>referer := Some ''https://evil.example/''\<rparr>) =
     (Redirect ''/'', session0\<lparr>referer := Some ''https://evil.example/''\<rparr>) \<and>
   issueSessionOrRedirectController (\<lambda>url. url = ''https://trusted.example/app'') session0 =
     (Redirect ''/'', session0)"
  using
    redirect_target_order [where i = "''abc''"
      and isUrlTrusted = "\<lambda>url. url = ''https://trusted.example/app''" and s =
      "session0\<lparr>interactionId := Some ''abc'', referer := Some ''https://trusted.example/app''\<rparr>"]
    redirect_target_order [where r = "''https://trusted.example/app''"
      and isUrlTrusted = "\<lambda>url. url = ''https://trusted.example/app''"
      and s = "session0\<lparr>referer := Some ''https://trusted.example/app''\<rparr>"]
    redirect_target_order [where r = "''https://evil.example/''"
      and isUrlTrusted = "\<lambda>url. url = ''https://trusted.example/app''"
      and s = "session0\<lparr>referer := Some ''https://evil.example/''\<rparr>"]
    redirect_target_order [where isUrlTrusted = "\<lambda>url. url = ''https://trusted.example/app''"
      and s = session0]
  by (simp add: truthy_def session0_def)

subsection \<open>The click on a magic link\<close>

text \<open>
  C2: a click on a magic link that arrives in a session with no pending email is never
  submitted by itself: the answer is never the auto-submit form, and for a token that
  passes the payload check it is the manual confirmation view, which carries the token.
  The controller calls no manager and writes nothing to the session, so no token is
  consumed and nobody is authenticated by the click. When the session has a pending
  email, the answer is the auto-submit form.
\<close>

theorem magic_link_click_requires_confirmation:
  "(truthy (email s) = None \<longrightarrow>
      (\<forall>locals. getSignInWithMagicLinkController csrfToken magic_link_token s
                  \<noteq> Render ''autosubmit-form'' locals) \<and>
      (\<forall>t. magic_link_token = Some t \<and> t \<noteq> [] \<longrightarrow>
         getSignInWithMagicLinkController csrfToken magic_link_token s =
           Render ''user/sign-in-with-magic-link''
             [(''csrfToken'', csrfToken), (''magicLinkToken'', t)])) \<and>
   (\<forall>e t. truthy (email s) = Some e \<and> magic_link_token = Some t \<and> t \<noteq> [] \<longrightarrow>
      getSignInWithMagicLinkController csrfToken magic_link_token s =
        Render ''autosubmit-form''
          [(''csrfToken'', csrfToken), (''actionLabel'', ''Connexion...''),
           (''actionPath'', ''/users/sign-in-with-magic-link''),
           (''inputName'', ''magic_link_token''), (''inputValue'', t)])"
  by (auto simp add: getSignInWithMagicLinkController_def zString_def zodIssues_def
      split: option.splits)

theorem magic_link_click_requires_confirmation_witness:
  "truthy (email sessionAnonymous) = None \<and>
   getSignInWithMagicLinkController ''csrf'' (Some ''m4g1c'') sessionAnonymous =
     Render ''user/sign-in-with-magic-link''
       [(''csrfToken'', ''csrf''), (''magicLinkToken'', ''m4g1c'')] \<and>
   truthy (email session0) = Some ''user@example.com'' \<and>
   getSignInWithMagicLinkController ''csrf'' (Some ''m4g1c'') session0 =
     Render ''autosubmit-form''
       [(''csrfToken'', ''csrf''), (''actionLabel'', ''Connexion...''),
        (''actionPath'', ''/users/sign-in-with-magic-link''),
        (''inputName'', ''magic_link_token''), (''inputValue'', ''m4g1c'')]"
proof -
  have anonymous: "truthy (email sessionAnonymous) = None"
    by (simp add: truthy_def sessionAnonymous_def)
  have pending: "truthy (email session0) = Some ''user@example.com''"
    by (simp add: truthy_def session0_def)
  from anonymous pending
    magic_link_click_requires_confirmation [of sessionAnonymous "''csrf''" "Some ''m4g1c''"]
    magic_link_click_requires_confirmation [of session0 "''csrf''" "Some ''m4g1c''"]
  show ?thesis by simp
qed

subsection \<open>Authenticating transitions\<close>

text \<open>
  C3: the three transitions that authenticate (password login, signup, login with a magic
  link) clear the pending email in the step that sets the user: whenever one of these
  controllers succeeds, or changes the user of the session, the session it leaves has a
  user and no pending email.
\<close>

theorem authenticated_transitions_clear_pending_email:
  "(postSignInMiddleware login password (s, w) = (r, s', w') \<and> (r = Next \<or> user s' \<noteq> user s) \<longrightarrow>
      email s' = None \<and> user s' \<noteq> None) \<and>
   (postSignUpController signup password (s, w) = (r, s', w') \<and> (r = Next \<or> user s' \<noteq> user s) \<longrightarrow>
      email s' = None \<and> user s' \<noteq> None) \<and>
   (postSignInWithMagicLinkController loginWithMagicLink token (s, w) = (r, s', w') \<and>
      (r = Next \<or> user s' \<noteq> user s) \<longrightarrow>
      email s' = None \<and> user s' \<noteq> None)"
  using postSignInMiddleware_session [of login password s w r s' w']
    postSignUpController_session [of signup password s w r s' w']
    postSignInWithMagicLinkController_session [of loginWithMagicLink token s w r s' w']
  by auto

theorem authenticated_transitions_clear_pending_email_witness:
  "postSignInMiddleware (exactPassword ''a long password'' user0) (Some ''a long password'')
       (session0, ()) =
     (Next, session0\<lparr>user := Some user0, email := None\<rparr>, ()) \<and>
   postSignUpController (\<lambda>pendingEmail p w. (Inr user0, w)) (Some ''a long password'') (session0, ()) =
     (Next, session0\<lparr>user := Some user0, email := None\<rparr>, ()) \<and>
   postSignInWithMagicLinkController (exactToken ''m4g1c'' user0 InvalidMagicLinkError)
       (Some ''m4g1c'') (session0, ()) =
     (Next, session0\<lparr>user := Some user0, email := None\<rparr>, ()) \<and>
   email (session0\<lparr>user := Some user0, email := None\<rparr>) = None \<and>
   user (session0\<lparr>user := Some user0, email := None\<rparr>) \<noteq> None"
proof -
  have signIn: "postSignInMiddleware (exactPassword ''a long password'' user0)
       (Some ''a long password'') (session0, ()) =
     (Next, session0\<lparr>user := Some user0, email := None\<rparr>, ())"
    by (simp add: postSignInMiddleware_def zString_Some exactPassword_def session0_def user0_def)
  have signUp: "postSignUpController (\<lambda>pendingEmail p w. (Inr user0, w)) (Some ''a long password'')
       (session0, ()) =
     (Next, session0\<lparr>user := Some user0, email := None\<rparr>, ())"
    by (simp add: postSignUpController_def zString_Some)
  have magic: "postSignInWithMagicLinkController (exactToken ''m4g1c'' user0 InvalidMagicLinkError)
       (Some ''m4g1c'') (session0, ()) =
     (Next, session0\<lparr>user := Some user0, email := None\<rparr>, ())"
    by (simp add: postSignInWithMagicLinkController_def zString_Some exactToken_def)
  from signIn signUp magic
    authenticated_transitions_clear_pending_email
      [where login = "exactPassword ''a long password'' user0"
         and password = "Some ''a long password''" and s = session0 and w = "()" and r = Next
         and s' = "session0\<lparr>user := Some user0, email := None\<rparr>" and w' = "()"
         and signup = "\<lambda>pendingEmail p w. (Inr user0, w)"
         and loginWithMagicLink = "exactToken ''m4g1c'' user0 InvalidMagicLinkError"
         and token = "Some ''m4g1c''"]
  show ?thesis by simp
qed

subsection \<open>A magic link that fails\<close>

text \<open>
  C5: when the login with a magic link fails, because the token is missing or empty or
  because the manager throws \<open>InvalidMagicLinkError\<close>, the outcome depends on the session
  only: \<^verbatim>\<open>invalid_magic_link\<close> on the start page when the session has no pending
  email, \<^verbatim>\<open>invalid_magic_link_with_reinit\<close> on the sign-in page when it has one.
  The session, and so the pending email, is as before.
\<close>

theorem failed_magic_link_outcome:
  assumes "magic_link_token = None \<or> magic_link_token = Some [] \<or>
           (\<exists>t. magic_link_token = Some t \<and> fst (loginWithMagicLink t w) = Inl InvalidMagicLinkError)"
  shows "fst (postSignInWithMagicLinkController loginWithMagicLink magic_link_token (s, w)) =
           (if isEmpty (email s)
            then Redirect ''/users/start-sign-in?notification=invalid_magic_link''
            else Redirect ''/users/sign-in?notification=invalid_magic_link_with_reinit'') \<and>
         fst (snd (postSignInWithMagicLinkController loginWithMagicLink magic_link_token (s, w))) = s"
proof -
  consider (malformed) "magic_link_token = None \<or> magic_link_token = Some []"
    | (invalid) t where "t \<noteq> []" "magic_link_token = Some t"
        "fst (loginWithMagicLink t w) = Inl InvalidMagicLinkError"
    using assms by blast
  then show ?thesis
  proof cases
    case malformed
    then show ?thesis
      by (auto simp add: postSignInWithMagicLinkController_def zString_empty zString_None)
  next
    case invalid
    then show ?thesis
      by (cases "loginWithMagicLink t w")
        (simp add: postSignInWithMagicLinkController_def zString_Some)
  qed
qed

theorem failed_magic_link_outcome_witness:
  "fst (exactToken ''m4g1c'' user0 InvalidMagicLinkError ''expired'' ()) = Inl InvalidMagicLinkError \<and>
   postSignInWithMagicLinkController (exactToken ''m4g1c'' user0 InvalidMagicLinkError)
       (Some ''expired'') (sessionAnonymous, ()) =
     (Redirect ''/users/start-sign-in?notification=invalid_magic_link'', sessionAnonymous, ()) \<and>
   postSignInWithMagicLinkController (exactToken ''m4g1c'' user0 InvalidMagicLinkError)
       (Some ''expired'') (session0, ()) =
     (Redirect ''/users/sign-in?notification=invalid_magic_link_with_reinit'', session0, ())"
proof -
  have fails: "fst (exactToken ''m4g1c'' user0 InvalidMagicLinkError ''expired'' ()) =
      Inl InvalidMagicLinkError"
    by (simp add: exactToken_def)
  then have hyp: "Some ''expired'' = None \<or> Some ''expired'' = Some [] \<or>
      (\<exists>t. Some ''expired'' = Some t \<and>
           fst (exactToken ''m4g1c'' user0 InvalidMagicLinkError t ()) = Inl InvalidMagicLinkError)"
    by simp
  have anonymous: "isEmpty (email sessionAnonymous)"
    by (simp add: isEmpty_def sessionAnonymous_def)
  have pending: "\<not> isEmpty (email session0)"
    by (simp add: isEmpty_def session0_def)
  from fails anonymous pending
    failed_magic_link_outcome [where magic_link_token = "Some ''expired''" and w = "()"
      and loginWithMagicLink = "exactToken ''m4g1c'' user0 InvalidMagicLinkError"
      and s = sessionAnonymous, OF hyp]
    failed_magic_link_outcome [where magic_link_token = "Some ''expired''" and w = "()"
      and loginWithMagicLink = "exactToken ''m4g1c'' user0 InvalidMagicLinkError"
      and s = session0, OF hyp]
  show ?thesis by (simp add: prod_eq_iff)
qed

subsection \<open>Failed transitions\<close>

text \<open>
  C8: a transition that fails leaves the session as it was. For every controller that
  writes to the session, an answer other than its success answer comes with the session
  unchanged; the controllers that request a mail or change a password never write to it.
  In particular a password login that fails with \<open>InvalidCredentialsError\<close> answers
  \<^verbatim>\<open>invalid_credentials\<close> and keeps the pending email and the user of the session,
  and an email verification that fails with \<open>InvalidTokenError\<close> answers
  \<^verbatim>\<open>invalid_verify_email_code\<close> and keeps the user of the session, with its
  \<open>emailVerifiedAt\<close>.
\<close>

theorem failed_transition_keeps_session:
  "(postSignInMiddleware login password (s, w) = (r, s', w') \<and> r \<noteq> Next \<longrightarrow> s' = s) \<and>
   (postSignUpController signup password (s, w) = (r, s', w') \<and> r \<noteq> Next \<longrightarrow> s' = s) \<and>
   (postSignInWithMagicLinkController loginWithMagicLink token (s, w) = (r, s', w') \<and> r \<noteq> Next
      \<longrightarrow> s' = s) \<and>
   (postVerifyEmailController verifyEmail token (s, w) = (r, s', w') \<and> r \<noteq> Next \<longrightarrow> s' = s) \<and>
   (postPersonalInformationsController updatePersonalInformations body (s, w) = (r, s', w') \<and>
      r \<noteq> Next \<longrightarrow> s' = s) \<and>
   (postStartSignInController emailSchema startLogin' login' (s, w) = (r, s', w') \<and>
      r \<noteq> Redirect ''/users/sign-in'' \<and> r \<noteq> Redirect ''/users/sign-up'' \<longrightarrow> s' = s) \<and>
   fst (snd (postSendMagicLinkController sendMagicLink origin (s, w))) = s \<and>
   fst (snd (postSendEmailVerificationController sendVerification (s, w))) = s \<and>
   fst (snd (postResetPasswordController emailSchema sendReset login' origin (s, w))) = s \<and>
   fst (snd (postChangePasswordController change token password (s, w))) = s \<and>
   (p \<noteq> [] \<and> fst (login (email s) p w) = Inl InvalidCredentialsError \<longrightarrow>
      postSignInMiddleware login (Some p) (s, w) =
        (Redirect ''/users/sign-in?notification=invalid_credentials'', s,
         snd (login (email s) p w))) \<and>
   (t \<noteq> [] \<and> user s = Some u \<and>
      fst (verifyEmail (user_email u) (stripWhitespace t) w) = Inl InvalidTokenError \<longrightarrow>
      postVerifyEmailController verifyEmail (Some t) (s, w) =
        (Redirect ''/users/verify-email?notification=invalid_verify_email_code'', s,
         snd (verifyEmail (user_email u) (stripWhitespace t) w)))"
  using postSignInMiddleware_session [of login password s w r s' w']
    postSignUpController_session [of signup password s w r s' w']
    postSignInWithMagicLinkController_session [of loginWithMagicLink token s w r s' w']
    postVerifyEmailController_session [of verifyEmail token s w r s' w']
    postPersonalInformationsController_session [of updatePersonalInformations body s w r s' w']
    postStartSignInController_session [of emailSchema startLogin' login' s w r s' w']
    postSendMagicLinkController_session [of sendMagicLink origin s w]
    postSendEmailVerificationController_session [of sendVerification s w]
    postResetPasswordController_session [of emailSchema sendReset login' origin s w]
    postChangePasswordController_session [of change token password s w]
    postSignInMiddleware_invalid_credentials [of p login s w]
    postVerifyEmailController_invalid_code [of t s u verifyEmail w]
  by blast

theorem failed_transition_keeps_session_witness:
  "fst (exactPassword ''a long password'' user0 (email (session0\<lparr>user := Some user0\<rparr>)) ''wrong'' ()) =
     Inl InvalidCredentialsError \<and>
   postSignInMiddleware (exactPassword ''a long password'' user0) (Some ''wrong'')
       (session0\<lparr>user := Some user0\<rparr>, ()) =
     (Redirect ''/users/sign-in?notification=invalid_credentials'',
      session0\<lparr>user := Some user0\<rparr>, ()) \<and>
   fst (exactToken ''1234567890'' (user0\<lparr>emailVerifiedAt := Some 10\<rparr>) InvalidTokenError
          (stripWhitespace ''0000 000 000'') ()) = Inl InvalidTokenError \<and>
   postVerifyEmailController
       (\<lambda>mail. exactToken ''1234567890'' (user0\<lparr>emailVerifiedAt := Some 10\<rparr>) InvalidTokenError)
       (Some ''0000 000 000'') (session0\<lparr>user := Some user0\<rparr>, ()) =
     (Redirect ''/users/verify-email?notification=invalid_verify_email_code'',
      session0\<lparr>user := Some user0\<rparr>, ())"
proof -
  have wrongPassword:
    "fst (exactPassword ''a long password'' user0 (email (session0\<lparr>user := Some user0\<rparr>)) ''wrong'' ())
       = Inl InvalidCredentialsError"
    by (simp add: exactPassword_def)
  have wrongCode:
    "fst (exactToken ''1234567890'' (user0\<lparr>emailVerifiedAt := Some 10\<rparr>) InvalidTokenError
           (stripWhitespace ''0000 000 000'') ()) = Inl InvalidTokenError"
    by (simp add: exactToken_def stripWhitespace_def isWhitespace_def)
  from wrongPassword wrongCode
    failed_transition_keeps_session
      [where login = "exactPassword ''a long password'' user0" and p = "''wrong''"
         and s = "session0\<lparr>user := Some user0\<rparr>" and w = "()" and u = user0
         and t = "''0000 000 000''"
         and verifyEmail = "\<lambda>mail. exactToken ''1234567890'' (user0\<lparr>emailVerifiedAt := Some 10\<rparr>)
               InvalidTokenError"]
  show ?thesis by simp
qed

subsection \<open>Whitespace in tokens\<close>
















subsection \<open>The start of a login\<close>

lemma findByEmail_None:
  "findByEmail us mail = None \<longleftrightarrow> (\<forall>u \<in> set us. user_email u \<noteq> mail)"
  by (auto simp add: findByEmail_def find_None_iff)

text \<open>
  C7: at the start of a login, when the email passes the schema and the format
  validation, the pending email of the session is set to the parsed email and the answer
  routes to the sign-in page when a user record with that email exists, to the sign-up
  page otherwise. When the format validation fails the outcome is
  \<^verbatim>\<open>invalid_email\<close>, with the suggestion of the validator when it has one; when the
  schema refuses the value the outcome is \<^verbatim>\<open>invalid_email\<close> too. In both cases the
  session is as before.
\<close>

theorem start_login_routes:
  "(emailSchema login = Some l \<and> isValid c l \<longrightarrow>
      postStartSignInController emailSchema (startLogin c) (Some login) (s, w) =
        (Redirect (if \<exists>u \<in> set (users w). user_email u = l then ''/users/sign-in''
                   else ''/users/sign-up''),
         s\<lparr>email := Some l\<rparr>, w)) \<and>
   (emailSchema login = Some l \<and> \<not> isValid c l \<longrightarrow>
      postStartSignInController emailSchema (startLogin c) (Some login) (s, w) =
        (Redirect (''/users/start-sign-in?notification=invalid_email&login_hint='' @ login @
           (case truthy (didYouMean c l) of Some d \<Rightarrow> ''&did_you_mean='' @ d | None \<Rightarrow> '''')),
         s, w)) \<and>
   (emailSchema login = None \<longrightarrow>
      postStartSignInController emailSchema (startLogin c) (Some login) (s, w) =
        (Redirect (''/users/start-sign-in?notification=invalid_email&login_hint='' @ login), s, w))"
proof (intro conjI impI)
  assume "emailSchema login = Some l \<and> isValid c l"
  then have "emailSchema login = Some l"
    and "startLogin c l w = (Inr (l, \<exists>u \<in> set (users w). user_email u = l), w)"
    by (auto simp add: startLogin_def findByEmail_None)
  then show "postStartSignInController emailSchema (startLogin c) (Some login) (s, w) =
        (Redirect (if \<exists>u \<in> set (users w). user_email u = l then ''/users/sign-in''
                   else ''/users/sign-up''),
         s\<lparr>email := Some l\<rparr>, w)"
    by (simp add: postStartSignInController_resolved)
next
  assume "emailSchema login = Some l \<and> \<not> isValid c l"
  then have "emailSchema login = Some l"
    and "startLogin c l w = (Inl (InvalidEmailError (didYouMean c l)), w)"
    by (simp_all add: startLogin_def)
  then show "postStartSignInController emailSchema (startLogin c) (Some login) (s, w) =
        (Redirect (''/users/start-sign-in?notification=invalid_email&login_hint='' @ login @
           (case truthy (didYouMean c l) of Some d \<Rightarrow> ''&did_you_mean='' @ d | None \<Rightarrow> '''')),
         s, w)"
    by (rule postStartSignInController_invalid)
next
  assume "emailSchema login = None"
  then show "postStartSignInController emailSchema (startLogin c) (Some login) (s, w) =
        (Redirect (''/users/start-sign-in?notification=invalid_email&login_hint='' @ login), s, w)"
    by (simp add: postStartSignInController_def zEmail_def template_def)
qed

theorem start_login_routes_witness:
  "postStartSignInController emailSchema0 (startLogin collaborators0) (Some ''user@example.com'')
       (sessionAnonymous, world0) =
     (Redirect ''/users/sign-in'', sessionAnonymous\<lparr>email := Some ''user@example.com''\<rparr>, world0) \<and>
   postStartSignInController emailSchema0 (startLogin collaborators0) (Some ''new@example.com'')
       (sessionAnonymous, world0) =
     (Redirect ''/users/sign-up'', sessionAnonymous\<lparr>email := Some ''new@example.com''\<rparr>, world0) \<and>
   postStartSignInController emailSchema0 (startLogin collaborators0) (Some ''user.example.com'')
       (sessionAnonymous, world0) =
     (Redirect ''/users/start-sign-in?notification=invalid_email&login_hint=user.example.com&did_you_mean=user@example.com'',
      sessionAnonymous, world0) \<and>
   postStartSignInController emailSchema0 (startLogin collaborators0) (Some '''')
       (sessionAnonymous, world0) =
     (Redirect ''/users/start-sign-in?notification=invalid_email&login_hint='', sessionAnonymous,
      world0)"
  using
    start_login_routes [where emailSchema = emailSchema0 and c = collaborators0
      and login = "''user@example.com''" and l = "''user@example.com''"
      and s = sessionAnonymous and w = world0]
    start_login_routes [where emailSchema = emailSchema0 and c = collaborators0
      and login = "''new@example.com''" and l = "''new@example.com''"
      and s = sessionAnonymous and w = world0]
    start_login_routes [where emailSchema = emailSchema0 and c = collaborators0
      and login = "''user.example.com''" and l = "''user.example.com''"
      and s = sessionAnonymous and w = world0]
    start_login_routes [where emailSchema = emailSchema0 and c = collaborators0
      and login = "''''" and s = sessionAnonymous and w = world0]
  by (simp add: emailSchema0_def collaborators0_def world0_def user0_def truthy_def)

subsection \<open>Requests that must not reveal an account\<close>

text \<open>
  C6: the request of a magic link and the request of a password reset have the same
  success outcome whether or not a user record has the email. With a pending email in the
  session the first one answers \<^verbatim>\<open>magic-link-sent\<close>, and for every email that passes
  the schema the second one answers \<^verbatim>\<open>reset_password_email_sent\<close>, on every store
  \<open>w\<close> and on the same store with any other list \<open>us\<close> of user records.
\<close>

theorem enumeration_safe_requests:
  "(truthy (email s) \<noteq> None \<longrightarrow>
      fst (postSendMagicLinkController (sendSendMagicLinkEmail c) origin (s, w)) =
        Redirect ''/users/magic-link-sent'' \<and>
      fst (postSendMagicLinkController (sendSendMagicLinkEmail c) origin (s, w\<lparr>users := us\<rparr>)) =
        Redirect ''/users/magic-link-sent'') \<and>
   (emailSchema login = Some l \<longrightarrow>
      fst (postResetPasswordController emailSchema (sendResetPasswordEmail c) (Some login) origin
             (s, w)) =
        Redirect ''/users/start-sign-in?notification=reset_password_email_sent'' \<and>
      fst (postResetPasswordController emailSchema (sendResetPasswordEmail c) (Some login) origin
             (s, w\<lparr>users := us\<rparr>)) =
        Redirect ''/users/start-sign-in?notification=reset_password_email_sent'')"
  by (auto simp add: postSendMagicLinkController_def sendSendMagicLinkEmail_def
      postResetPasswordController_def sendResetPasswordEmail_def zEmail_def)

theorem enumeration_safe_requests_witness:
  "truthy (email session0) \<noteq> None \<and>
   emailSchema0 ''user@example.com'' = Some ''user@example.com'' \<and>
   users world0 = [user0] \<and> users (world0\<lparr>users := []\<rparr>) = [] \<and>
   fst (postSendMagicLinkController (sendSendMagicLinkEmail collaborators0) None (session0, world0)) =
     Redirect ''/users/magic-link-sent'' \<and>
   fst (postSendMagicLinkController (sendSendMagicLinkEmail collaborators0) None
          (session0, world0\<lparr>users := []\<rparr>)) =
     Redirect ''/users/magic-link-sent'' \<and>
   fst (postResetPasswordController emailSchema0 (sendResetPasswordEmail collaborators0)
          (Some ''user@example.com'') None (session0, world0)) =
     Redirect ''/users/start-sign-in?notification=reset_password_email_sent'' \<and>
   fst (postResetPasswordController emailSchema0 (sendResetPasswordEmail collaborators0)
          (Some ''user@example.com'') None (session0, world0\<lparr>users := []\<rparr>)) =
     Redirect ''/users/start-sign-in?notification=reset_password_email_sent''"
proof -
  have pending: "truthy (email session0) \<noteq> None"
    by (simp add: truthy_def session0_def)
  have parsed: "emailSchema0 ''user@example.com'' = Some ''user@example.com''"
    by (simp add: emailSchema0_def)
  have stores: "users world0 = [user0]" "users (world0\<lparr>users := []\<rparr>) = []"
    by (simp_all add: world0_def)
  from pending parsed stores
    enumeration_safe_requests [where s = session0 and c = collaborators0 and origin = None
      and w = world0 and us = "[]" and emailSchema = emailSchema0
      and login = "''user@example.com''" and l = "''user@example.com''"]
  show ?thesis by simp
qed

subsection \<open>A weak password on a reset\<close>

lemma changePassword_weak:
  "length p < MIN_PASSWORD_LENGTH \<Longrightarrow> changePassword c t p w = (Inl WeakPasswordError, w)"
  by (simp add: changePassword_def checkStrength_def)

lemma changePassword_strong:
  assumes "MIN_PASSWORD_LENGTH \<le> length p" and "validate PasswordReset t w = Inr tok"
  shows "changePassword c t p w =
           (Inr (), w\<lparr>tokens := (tokens w)(stripWhitespace t \<mapsto> tok\<lparr>consumedAt := Some (now w)\<rparr>),
                      users := updatePasswordHash (subject tok) (hash c p) (users w)\<rparr>)"
  using assms by (simp add: changePassword_def checkStrength_def consume_def)

lemma validate_after_consume:
  assumes "validate k t w = Inr tok"
  shows "validate k t
           (w\<lparr>tokens := (tokens w)(stripWhitespace t \<mapsto> tok\<lparr>consumedAt := Some (now w)\<rparr>),
              users := us\<rparr>)
           = Inl TokenAlreadyUsed"
  using assms by (auto simp add: validate_def split: option.splits if_splits)

lemma weak_password_response:
  assumes "token \<noteq> []"
    and "case password of None \<Rightarrow> True | Some p \<Rightarrow> length p < MIN_PASSWORD_LENGTH"
  shows "postChangePasswordController (changePassword c) (Some token) password (s, w) =
           (Redirect (''/users/change-password?reset_password_token='' @ token @
              ''&notification=weak_password''), s, w)"
proof (cases password)
  case None
  then show ?thesis using assms
    by (simp add: postChangePasswordController_def changePasswordSchema_def zString_Some
        zString_def zodIssues_def postChangePasswordCatch_def template_def)
next
  case (Some p)
  show ?thesis
  proof (cases "p = []")
    case True
    then show ?thesis using assms Some
      by (simp add: postChangePasswordController_def changePasswordSchema_def zString_Some
          zString_def zodIssues_def postChangePasswordCatch_def template_def)
  next
    case False
    then show ?thesis using assms Some
      by (simp add: postChangePasswordController_def changePasswordSchema_def zString_Some
          changePassword_weak postChangePasswordCatch_def template_def)
  qed
qed

text \<open>
  C1: a password reset with a valid, unconsumed token that is not empty and a new
  password below the minimum length (or no password) has the outcome
  \<^verbatim>\<open>weak_password\<close> and consumes nothing: the stores are as before and the token is
  still valid. The strength is checked before the token is consumed, so the same token,
  used afterwards with a password of the minimum length or more, has the outcome
  \<^verbatim>\<open>password_change_success\<close>, and only then is it consumed.
\<close>

theorem weak_password_keeps_reset_token:
  assumes "validate PasswordReset token w = Inr tok" and "token \<noteq> []"
    and "case password of None \<Rightarrow> True | Some p \<Rightarrow> length p < MIN_PASSWORD_LENGTH"
  shows "postChangePasswordController (changePassword c) (Some token) password (s, w) =
           (Redirect (''/users/change-password?reset_password_token='' @ token @
              ''&notification=weak_password''), s, w) \<and>
         validate PasswordReset token
           (snd (snd (postChangePasswordController (changePassword c) (Some token) password (s, w))))
           = Inr tok \<and>
         (MIN_PASSWORD_LENGTH \<le> length strong \<longrightarrow>
            (\<exists>w'. postChangePasswordController (changePassword c) (Some token) (Some strong)
                     (snd (postChangePasswordController (changePassword c) (Some token) password (s, w)))
                   = (Redirect ''/users/start-sign-in?notification=password_change_success'', s, w') \<and>
                  validate PasswordReset token w' = Inl TokenAlreadyUsed))"
proof -
  have weak: "postChangePasswordController (changePassword c) (Some token) password (s, w) =
           (Redirect (''/users/change-password?reset_password_token='' @ token @
              ''&notification=weak_password''), s, w)"
    using assms(2,3) by (rule weak_password_response)
  have strong: "\<exists>w'. postChangePasswordController (changePassword c) (Some token) (Some strong) (s, w)
                   = (Redirect ''/users/start-sign-in?notification=password_change_success'', s, w') \<and>
                  validate PasswordReset token w' = Inl TokenAlreadyUsed"
    if len: "MIN_PASSWORD_LENGTH \<le> length strong"
  proof -
    from len have ne: "strong \<noteq> []" by (auto simp add: MIN_PASSWORD_LENGTH_def)
    show ?thesis
      using assms(1,2) ne validate_after_consume [OF assms(1)]
      by (simp add: postChangePasswordController_def changePasswordSchema_def zString_Some
          changePassword_strong [OF len assms(1)])
  qed
  show ?thesis using weak strong assms(1) by simp
qed

theorem weak_password_keeps_reset_token_witness:
  "validate PasswordReset ''r3s3t'' world0 = Inr token0 \<and>
   length ''short'' < MIN_PASSWORD_LENGTH \<and> MIN_PASSWORD_LENGTH \<le> length ''a long password'' \<and>
   postChangePasswordController (changePassword collaborators0) (Some ''r3s3t'') (Some ''short'')
       (session0, world0) =
     (Redirect ''/users/change-password?reset_password_token=r3s3t&notification=weak_password'',
      session0, world0) \<and>
   (\<exists>w'. postChangePasswordController (changePassword collaborators0) (Some ''r3s3t'')
            (Some ''a long password'') (session0, world0) =
          (Redirect ''/users/start-sign-in?notification=password_change_success'', session0, w') \<and>
          validate PasswordReset ''r3s3t'' w' = Inl TokenAlreadyUsed)"
proof -
  have valid: "validate PasswordReset ''r3s3t'' world0 = Inr token0"
    by (simp add: validate_def world0_def token0_def stripWhitespace_def isWhitespace_def)
  have nonempty: "''r3s3t'' \<noteq> []"
    by simp
  have short: "case Some ''short'' of None \<Rightarrow> True | Some p \<Rightarrow> length p < MIN_PASSWORD_LENGTH"
    by (simp add: MIN_PASSWORD_LENGTH_def)
  have long: "MIN_PASSWORD_LENGTH \<le> length ''a long password''"
    by (simp add: MIN_PASSWORD_LENGTH_def)
  from valid long short
    weak_password_keeps_reset_token [OF valid nonempty short, of collaborators0 session0
      "''a long password''"]
  show ?thesis by auto
qed

end
